theory Spec2Isabelle
  imports Complex_Main
begin

section \<open>Screen Dimmer: overlay opacity, tint colour, schedule and persistence\<close>

text \<open>
  A shallow embedding of the parts of \<^verbatim>\<open>dimmer.pyw\<close> that carry logic: the opacity
  curve of \<^verbatim>\<open>DimmerOverlay.set_dimming\<close>, the tint colour of
  \<^verbatim>\<open>DimmerControl._calculate_blue_light_color\<close>, the schedule window test and the
  remaining-time computation, the profile store and the controller's dimmer state
  machine with its state file.

  Python \<^verbatim>\<open>int\<close> is \<^typ>\<open>int\<close>. Python \<^verbatim>\<open>float\<close> is modelled by \<^typ>\<open>real\<close>:
  arithmetic is exact, \<^verbatim>\<open>x ** a\<close> on a non-negative base is \<^term>\<open>x powr a\<close>, and the
  rounding of IEEE doubles is not represented. Widget styling, labels, tooltips and tray
  notifications carry no state that the logic reads back and are left out.
\<close>

subsection \<open>Python helpers\<close>

text \<open>\<^verbatim>\<open>int(x)\<close> on a float truncates towards zero.\<close>

definition py_int :: "real \<Rightarrow> int" where
  "py_int x = (if 0 \<le> x then \<lfloor>x\<rfloor> else \<lceil>x\<rceil>)"

subsection \<open>DimmerOverlay\<close>

record qcolor =
  red :: int
  green :: int
  blue :: int

definition QColor :: "int \<Rightarrow> int \<Rightarrow> int \<Rightarrow> qcolor" where
  "QColor r g b = \<lparr>red = r, green = g, blue = b\<rparr>"

text \<open>
  The overlay widget: the colour of its style sheet, the end value of the opacity
  animation last started (\<^verbatim>\<open>windowOpacity\<close> once the animation has run) and the
  field \<^verbatim>\<open>_current_opacity\<close>.
\<close>

record dimmer_overlay =
  style_color :: qcolor
  window_opacity :: real
  current_opacity :: real

text \<open>\<^verbatim>\<open>DimmerOverlay.__init__\<close>: black style sheet, window opacity 0.\<close>

definition DimmerOverlay :: dimmer_overlay where
  "DimmerOverlay = \<lparr>style_color = QColor 0 0 0, window_opacity = 0, current_opacity = 0\<rparr>"

text \<open>Line 472: \<^verbatim>\<open>opacity = max(0, min(95, opacity))\<close>.\<close>

definition validate_opacity :: "int \<Rightarrow> int" where
  "validate_opacity opacity = max 0 (min 95 opacity)"

text \<open>
  Lines 483-500, the branch \<^verbatim>\<open>if color:\<close> (a \<^verbatim>\<open>QColor\<close> object is always truthy, so the
  branch is taken exactly when a colour is passed). The argument is the validated
  percentage.
\<close>

definition tint_opacity :: "int \<Rightarrow> real" where
  "tint_opacity opacity =
     (if opacity \<le> 12 then real_of_int opacity / 100.0
      else if opacity \<le> 15 then real_of_int opacity * 2.0 / 100
      else if opacity \<le> 30 then
        (let normalized = real_of_int (opacity - 15) / 15
         in 0.30 + (normalized powr 1.0) * 0.20)
      else if opacity \<le> 50 then
        (let normalized = real_of_int (opacity - 30) / 20
         in 0.50 + (normalized powr 1.2) * 0.15)
      else
        (let normalized = real_of_int (opacity - 50) / 45
         in 0.65 + (normalized powr 1.4) * 0.25))"

text \<open>Lines 507-529, the branch without a colour (pure black).\<close>

definition black_opacity :: "int \<Rightarrow> real" where
  "black_opacity opacity =
     (if opacity \<le> 5 then real_of_int opacity * 4.0 / 100
      else if opacity \<le> 15 then
        (let normalized = real_of_int (opacity - 5) / 10
         in 0.20 + (normalized powr 1.0) * 0.20)
      else if opacity \<le> 30 then
        (let normalized = real_of_int (opacity - 15) / 15
         in 0.40 + (normalized powr 1.2) * 0.25)
      else if opacity \<le> 50 then
        (let normalized = real_of_int (opacity - 30) / 20
         in 0.65 + (normalized powr 1.4) * 0.15)
      else if opacity \<le> 75 then
        (let normalized = real_of_int (opacity - 50) / 25
         in 0.80 + (normalized powr 1.6) * 0.12)
      else
        (let normalized = real_of_int (opacity - 75) / 20
         in 0.92 + (normalized powr 2.5) * 0.07))"

text \<open>
  The value \<^verbatim>\<open>actual_opacity\<close> of \<^verbatim>\<open>set_dimming\<close> after line 532: validate the
  percentage, pick the curve, clamp to \<open>[0.0, 0.99]\<close>.
\<close>

definition actual_opacity :: "int \<Rightarrow> qcolor option \<Rightarrow> real" where
  "actual_opacity opacity color =
     (let opacity = validate_opacity opacity;
          actual = (case color of
                      Some c \<Rightarrow> tint_opacity opacity
                    | None \<Rightarrow> black_opacity opacity)
      in max 0.0 (min 0.99 actual))"

text \<open>
  The \<^verbatim>\<open>except\<close> branch of \<^verbatim>\<open>set_dimming\<close> (lines 550-558) sets the window opacity
  directly. An integer percentage cannot fail at line 472, so the branch sees the
  validated value, for which \<^verbatim>\<open>opacity <= 95\<close> holds.
\<close>

definition fallback_opacity :: "int \<Rightarrow> real" where
  "fallback_opacity opacity = min 0.99 (real_of_int (validate_opacity opacity) / 100.0)"

text \<open>
  \<^verbatim>\<open>set_dimming\<close> on the path where no toolkit call raises: the style sheet takes the
  validated colour (black without one), the animation runs to \<^verbatim>\<open>actual_opacity\<close> and
  \<^verbatim>\<open>_current_opacity\<close> is set to it.
\<close>

definition set_dimming :: "dimmer_overlay \<Rightarrow> int \<Rightarrow> qcolor option \<Rightarrow> dimmer_overlay" where
  "set_dimming self opacity color =
     self\<lparr>style_color :=
            (case color of
               Some c \<Rightarrow> QColor (max 0 (min 255 (red c))) (max 0 (min 255 (green c)))
                                (max 0 (min 255 (blue c)))
             | None \<Rightarrow> QColor 0 0 0),
          window_opacity := actual_opacity opacity color,
          current_opacity := actual_opacity opacity color\<rparr>"

text \<open>The same call when a toolkit call raises: only the fallback opacity is applied.\<close>

definition set_dimming_fallback :: "dimmer_overlay \<Rightarrow> int \<Rightarrow> dimmer_overlay" where
  "set_dimming_fallback self opacity = self\<lparr>window_opacity := fallback_opacity opacity\<rparr>"


subsection \<open>Tint colour\<close>

text \<open>\<^verbatim>\<open>DimmerControl._calculate_blue_light_color\<close>, lines 2146-2171.\<close>

definition calculate_blue_light_color :: "int \<Rightarrow> qcolor" where
  "calculate_blue_light_color intensity =
     (if intensity = 0 then QColor 255 255 255
      else
        (let red = 255;
             green = py_int (255 - (real_of_int intensity * 0.55));
             blue = py_int (255 - (real_of_int intensity * 1.05));
             green = max 200 green;
             blue = max 150 blue
         in QColor red green blue))"

subsection \<open>Times of day\<close>

text \<open>
  A \<^verbatim>\<open>QTime\<close> by its components. Qt orders times by the milliseconds since the start
  of the day, and so do the comparison operators below.
\<close>

record qtime =
  hour :: int
  minute :: int
  second :: int
  msec :: int

definition valid_qtime :: "qtime \<Rightarrow> bool" where
  "valid_qtime t =
     (0 \<le> hour t \<and> hour t < 24 \<and> 0 \<le> minute t \<and> minute t < 60 \<and>
      0 \<le> second t \<and> second t < 60 \<and> 0 \<le> msec t \<and> msec t < 1000)"

definition msecs_since_start_of_day :: "qtime \<Rightarrow> int" where
  "msecs_since_start_of_day t = ((hour t * 60 + minute t) * 60 + second t) * 1000 + msec t"

definition qtime_le :: "qtime \<Rightarrow> qtime \<Rightarrow> bool" where
  "qtime_le a b = (msecs_since_start_of_day a \<le> msecs_since_start_of_day b)"

definition qtime_less :: "qtime \<Rightarrow> qtime \<Rightarrow> bool" where
  "qtime_less a b = (msecs_since_start_of_day a < msecs_since_start_of_day b)"

text \<open>
  The two-argument constructor \<^verbatim>\<open>QTime(h, m)\<close>: seconds and milliseconds are zero.
  Every schedule time of the program is built this way: the presets and the loader call
  \<^verbatim>\<open>QTime(h, m)\<close>, and the custom dialog starts from \<^verbatim>\<open>QTime(22, 0)\<close> and
  \<^verbatim>\<open>QTime(6, 0)\<close> in editors whose display format \<^verbatim>\<open>h:mm AP\<close> has no seconds section.
\<close>

definition QTime :: "int \<Rightarrow> int \<Rightarrow> qtime" where
  "QTime h m = \<lparr>hour = h, minute = m, second = 0, msec = 0\<rparr>"

subsection \<open>Schedule window and remaining time\<close>

text \<open>
  The window test, written out identically in \<^verbatim>\<open>_check_schedule\<close> (lines 3105-3112)
  and in \<^verbatim>\<open>_update_time_remaining\<close> (lines 2353-2358).
\<close>

definition in_schedule :: "qtime \<Rightarrow> qtime \<Rightarrow> qtime \<Rightarrow> bool" where
  "in_schedule current_time start_time end_time =
     (if qtime_le start_time end_time
      then qtime_le start_time current_time \<and> qtime_le current_time end_time
      else qtime_le start_time current_time \<or> qtime_le current_time end_time)"

text \<open>
  The value of \<^verbatim>\<open>remaining_seconds\<close> in \<^verbatim>\<open>_update_time_remaining\<close>, lines 2360-2378
  and 2409-2431, branch by branch.
\<close>

definition remaining_seconds :: "qtime \<Rightarrow> qtime \<Rightarrow> qtime \<Rightarrow> int" where
  "remaining_seconds current_time start_time end_time =
     (if in_schedule current_time start_time end_time then
        (if qtime_le start_time end_time then
           (let end_seconds = hour end_time * 3600 + minute end_time * 60;
                current_seconds = hour current_time * 3600 + minute current_time * 60
            in end_seconds - current_seconds)
         else if qtime_le start_time current_time then
           (let end_seconds = (hour end_time + 24) * 3600 + minute end_time * 60;
                current_seconds = hour current_time * 3600 + minute current_time * 60
            in end_seconds - current_seconds)
         else
           (let end_seconds = hour end_time * 3600 + minute end_time * 60;
                current_seconds = hour current_time * 3600 + minute current_time * 60
            in end_seconds - current_seconds))
      else
        (if qtime_le start_time end_time then
           (let start_seconds = hour start_time * 3600 + minute start_time * 60;
                current_seconds = hour current_time * 3600 + minute current_time * 60
            in if current_seconds < start_seconds then start_seconds - current_seconds
               else (24 * 3600) - current_seconds + start_seconds)
         else if qtime_less current_time end_time then
           (let start_seconds = hour start_time * 3600 + minute start_time * 60;
                current_seconds = hour current_time * 3600 + minute current_time * 60
            in start_seconds - current_seconds)
         else
           (let start_seconds = hour start_time * 3600 + minute start_time * 60;
                current_seconds = hour current_time * 3600 + minute current_time * 60
            in start_seconds - current_seconds)))"

text \<open>The text shown by \<^verbatim>\<open>_update_time_remaining\<close>, by its kind and numbers.\<close>

datatype time_remaining_label =
    NoScheduleSet
  | ScheduleEndsIn int int
  | ScheduleEndsInMinutes int
  | ScheduleEndingNow
  | ScheduleStartsIn int int
  | ScheduleStartsInMinutes int
  | ScheduleStartingNow

definition time_remaining_text :: "qtime \<Rightarrow> qtime \<Rightarrow> qtime \<Rightarrow> time_remaining_label" where
  "time_remaining_text current_time start_time end_time =
     (let remaining = remaining_seconds current_time start_time end_time;
          hours = remaining div 3600;
          minutes = (remaining mod 3600) div 60
      in if in_schedule current_time start_time end_time then
           (if 0 < remaining then
              (if 0 < hours then ScheduleEndsIn hours minutes else ScheduleEndsInMinutes minutes)
            else ScheduleEndingNow)
         else
           (if 0 < remaining then
              (if 0 < hours then ScheduleStartsIn hours minutes
               else ScheduleStartsInMinutes minutes)
            else ScheduleStartingNow))"

text \<open>
  The reading of the specification for the remaining time, to be compared with
  \<^const>\<open>remaining_seconds\<close>: the far edge of the window is its end when the current time
  is inside and its start when outside; both times are taken at minute granularity; the
  naive difference gets 24 hours added when it is negative.
\<close>

definition minute_seconds :: "qtime \<Rightarrow> int" where
  "minute_seconds t = hour t * 3600 + minute t * 60"

definition far_edge :: "qtime \<Rightarrow> qtime \<Rightarrow> qtime \<Rightarrow> qtime" where
  "far_edge current_time start_time end_time =
     (if in_schedule current_time start_time end_time then end_time else start_time)"

definition naive_remaining :: "qtime \<Rightarrow> qtime \<Rightarrow> qtime \<Rightarrow> int" where
  "naive_remaining current_time start_time end_time =
     minute_seconds (far_edge current_time start_time end_time) - minute_seconds current_time"

definition seconds_until_boundary :: "qtime \<Rightarrow> qtime \<Rightarrow> qtime \<Rightarrow> int" where
  "seconds_until_boundary current_time start_time end_time =
     (let naive = naive_remaining current_time start_time end_time
      in if naive < 0 then naive + 24 * 3600 else naive)"

text \<open>
  The two situations the specification names for the added day: an overnight window with
  the current time at or after its start, and a same-day window that the current time has
  already left behind today.
\<close>

definition day_added :: "qtime \<Rightarrow> qtime \<Rightarrow> qtime \<Rightarrow> bool" where
  "day_added current_time start_time end_time =
     (if qtime_le start_time end_time
      then \<not> in_schedule current_time start_time end_time \<and> qtime_le start_time current_time
      else qtime_le start_time current_time)"

subsection \<open>ProfileManager\<close>

record profile =
  dimming :: int
  blue_light :: bool
  blue_intensity_of :: int

definition Profile :: "int \<Rightarrow> bool \<Rightarrow> int \<Rightarrow> profile" where
  "Profile d b i = \<lparr>dimming = d, blue_light = b, blue_intensity_of = i\<rparr>"

text \<open>
  What \<^verbatim>\<open>open\<close> and \<^verbatim>\<open>json.load\<close> can meet at \<^verbatim>\<open>Config.PROFILES_FILE\<close>: no file, text
  that is not JSON, a JSON object of well-formed profiles, or other valid JSON (for which
  \<^verbatim>\<open>data.items()\<close> or \<^verbatim>\<open>Profile(**v)\<close> raises an exception that \<^verbatim>\<open>load\<close> does not
  catch).
\<close>

datatype profiles_file =
    FileMissing
  | MalformedJson
  | ProfilesJson "(string \<times> profile) list"
  | OtherJson

datatype error = UncaughtError | TypeError

record profile_manager =
  profiles :: "(string \<times> profile) list"
  cache_dirty :: bool
  profiles_on_disk :: profiles_file
  profiles_writable :: bool

definition get_defaults :: "(string \<times> profile) list" where
  "get_defaults =
     [(''Night Mode'', Profile 85 True 60),
      (''Reading'', Profile 60 False 0),
      (''Gaming'', Profile 50 False 0),
      (''Movie'', Profile 80 True 30)]"

text \<open>
  \<^verbatim>\<open>ProfileManager.save\<close>, lines 735-746: nothing happens unless the cache is dirty; an
  \<^verbatim>\<open>IOError\<close> is swallowed.
\<close>

definition save :: "profile_manager \<Rightarrow> profile_manager" where
  "save self =
     (if \<not> cache_dirty self then self
      else if profiles_writable self
        then self\<lparr>profiles_on_disk := ProfilesJson (profiles self), cache_dirty := False\<rparr>
        else self)"

text \<open>\<^verbatim>\<open>ProfileManager.load\<close>, lines 725-733.\<close>

definition load :: "profile_manager \<Rightarrow> error + profile_manager" where
  "load self =
     (case profiles_on_disk self of
        ProfilesJson data \<Rightarrow> Inr (self\<lparr>profiles := data\<rparr>)
      | OtherJson \<Rightarrow> Inl UncaughtError
      | FileMissing \<Rightarrow> Inr (save (self\<lparr>profiles := get_defaults\<rparr>))
      | MalformedJson \<Rightarrow> Inr (save (self\<lparr>profiles := get_defaults\<rparr>)))"

text \<open>
  \<^verbatim>\<open>ProfileManager.__init__\<close>, lines 720-723, on a disk holding \<open>file\<close>: empty mapping,
  clean cache, then \<^verbatim>\<open>load\<close>.
\<close>

definition ProfileManager :: "profiles_file \<Rightarrow> bool \<Rightarrow> error + profile_manager" where
  "ProfileManager file writable =
     load \<lparr>profiles = [], cache_dirty = False, profiles_on_disk = file,
           profiles_writable = writable\<rparr>"

text \<open>\<^verbatim>\<open>ProfileManager.add\<close>, lines 748-751 (a dictionary store: the key is replaced).\<close>

definition add :: "profile_manager \<Rightarrow> string \<Rightarrow> profile \<Rightarrow> profile_manager" where
  "add self name p =
     self\<lparr>profiles := (if name \<in> fst ` set (profiles self)
                        then map (\<lambda>(k, v). if k = name then (k, p) else (k, v)) (profiles self)
                        else profiles self @ [(name, p)]),
          cache_dirty := True\<rparr>"


subsection \<open>The state file\<close>

datatype json = JInt int | JBool bool | JString string | JNull

definition digit_char :: "int \<Rightarrow> char" where
  "digit_char d = ''0123456789'' ! nat d"

text \<open>\<^verbatim>\<open>QTime.toString('HH:mm')\<close>, for a valid time.\<close>

definition to_HHmm :: "qtime \<Rightarrow> string" where
  "to_HHmm t =
     [digit_char (hour t div 10), digit_char (hour t mod 10), CHR '':'',
      digit_char (minute t div 10), digit_char (minute t mod 10)]"

subsection \<open>DimmerControl\<close>

text \<open>
  The fields of \<^verbatim>\<open>DimmerControl\<close> that the dimmer, the schedule and the state file use.
  \<open>blue_intensity\<close> is the value of the slider widget of that name and \<open>dim_slider\<close>
  the value of the dim slider (range 0 to 95, line 1031); \<open>screen_count\<close> is
  \<^verbatim>\<open>len(QApplication.screens())\<close>; the two timer fields say whether the schedule timers
  run. \<open>state_file\<close> is the content of \<^verbatim>\<open>Config.STATE_FILE\<close> (\<open>None\<close>: no file) and
  \<open>state_writable\<close> says whether writing it succeeds.

  The attribute \<^verbatim>\<open>second_display_blue_intensity\<close> holds two kinds of object: line 1606
  binds it to the slider widget itself, and it becomes an integer only when that slider is
  moved (line 2051) or a saved state is loaded (line 1813). The value of the widget is the
  field \<open>second_display_blue_intensity_widget\<close>.
\<close>

datatype intensity_attribute = IntValue int | SliderWidget

record dimmer_control =
  overlays :: "int \<rightharpoonup> dimmer_overlay"
  dimmer_active :: bool
  current_dim :: int
  blue_light_active :: bool
  blue_intensity :: int
  schedule_enabled :: bool
  toggle_in_progress :: bool
  start_time :: "qtime option"
  end_time :: "qtime option"
  schedule_dim_value :: int
  schedule_time_set :: bool
  blinker_active :: bool
  emoji_blink_enabled :: bool
  text_blink_enabled :: bool
  rain_interval_minutes :: int
  rain_duration_seconds :: int
  second_display_enabled :: bool
  second_display_dim :: int
  second_display_blue_light :: bool
  second_display_blue_intensity :: intensity_attribute
  second_display_blue_intensity_widget :: int
  dim_slider :: int
  screen_count :: int
  schedule_timer_running :: bool
  time_remaining_timer_running :: bool
  state_file :: "(string \<times> json) list option"
  state_writable :: bool

text \<open>
  \<^verbatim>\<open>DimmerControl.__init__\<close>, lines 845-885, with the widget values of \<^verbatim>\<open>_init_ui\<close>
  (dim slider at 25, warmth sliders at 50, the second display's intensity attribute bound
  to its slider) and the timers of \<^verbatim>\<open>_init_timers\<close> (created,
  not started), before any saved state is loaded.
\<close>

definition DimmerControl :: "int \<Rightarrow> (string \<times> json) list option \<Rightarrow> bool \<Rightarrow> dimmer_control" where
  "DimmerControl screens file writable =
     \<lparr>overlays = Map.empty,
      dimmer_active = False,
      current_dim = 25,
      blue_light_active = False,
      blue_intensity = 50,
      schedule_enabled = False,
      toggle_in_progress = False,
      start_time = None,
      end_time = None,
      schedule_dim_value = 70,
      schedule_time_set = False,
      blinker_active = False,
      emoji_blink_enabled = False,
      text_blink_enabled = True,
      rain_interval_minutes = 10,
      rain_duration_seconds = 7,
      second_display_enabled = False,
      second_display_dim = 25,
      second_display_blue_light = False,
      second_display_blue_intensity = SliderWidget,
      second_display_blue_intensity_widget = 50,
      dim_slider = 25,
      screen_count = screens,
      schedule_timer_running = False,
      time_remaining_timer_running = False,
      state_file = file,
      state_writable = writable\<rparr>"

text \<open>The dictionary built by \<^verbatim>\<open>StateManager.save_state\<close>, lines 786-821.\<close>

definition state_dict :: "dimmer_control \<Rightarrow> (string \<times> json) list" where
  "state_dict dimmer_control =
     [(''current_dim'', JInt (current_dim dimmer_control)),
      (''dimmer_active'', JBool (dimmer_active dimmer_control)),
      (''blue_light_active'', JBool (blue_light_active dimmer_control)),
      (''blue_intensity'', JInt (blue_intensity dimmer_control)),
      (''second_display_enabled'', JBool (second_display_enabled dimmer_control)),
      (''second_display_dim'', JInt (second_display_dim dimmer_control)),
      (''second_display_blue_light'', JBool (second_display_blue_light dimmer_control)),
      (''second_display_blue_intensity'',
         JInt (case second_display_blue_intensity dimmer_control of
                 IntValue v \<Rightarrow> v
               | SliderWidget \<Rightarrow> second_display_blue_intensity_widget dimmer_control)),
      (''schedule_enabled'', JBool (schedule_enabled dimmer_control)),
      (''schedule_time_set'', JBool (schedule_time_set dimmer_control)),
      (''schedule_dim_value'', JInt (schedule_dim_value dimmer_control)),
      (''start_time'', (case start_time dimmer_control of
                          Some t \<Rightarrow> JString (to_HHmm t) | None \<Rightarrow> JNull)),
      (''end_time'', (case end_time dimmer_control of
                        Some t \<Rightarrow> JString (to_HHmm t) | None \<Rightarrow> JNull)),
      (''blinker_active'', JBool (blinker_active dimmer_control)),
      (''emoji_blink_enabled'', JBool (emoji_blink_enabled dimmer_control)),
      (''text_blink_enabled'', JBool (text_blink_enabled dimmer_control)),
      (''rain_interval_minutes'', JInt (rain_interval_minutes dimmer_control)),
      (''rain_duration_seconds'', JInt (rain_duration_seconds dimmer_control))]"

text \<open>
  \<^verbatim>\<open>StateManager.save_state\<close> / \<^verbatim>\<open>DimmerControl._save_state\<close>: a full overwrite of the
  file; any exception is caught and only printed.
\<close>

definition save_state :: "dimmer_control \<Rightarrow> dimmer_control" where
  "save_state self =
     (if state_writable self then self\<lparr>state_file := Some (state_dict self)\<rparr> else self)"

text \<open>
  \<^verbatim>\<open>_get_overlay_for_screen\<close>, lines 1914-1929: the overlay of the screen, created on
  demand when the screen exists.
\<close>

definition get_overlay_for_screen ::
    "dimmer_control \<Rightarrow> int \<Rightarrow> dimmer_control \<times> dimmer_overlay option" where
  "get_overlay_for_screen self screen_index =
     (case overlays self screen_index of
        None \<Rightarrow>
          (if screen_index < screen_count self
           then (self\<lparr>overlays := (overlays self)(screen_index \<mapsto> DimmerOverlay)\<rparr>,
                 Some DimmerOverlay)
           else (self, None))
      | Some overlay \<Rightarrow> (self, Some overlay))"

text \<open>\<^verbatim>\<open>_close_overlay_for_screen\<close>, lines 1931-1944.\<close>

definition close_overlay_for_screen :: "dimmer_control \<Rightarrow> int \<Rightarrow> dimmer_control" where
  "close_overlay_for_screen self screen_index =
     self\<lparr>overlays := (overlays self)(screen_index := None)\<rparr>"

text \<open>\<^verbatim>\<open>_get_enabled_screens\<close>, lines 1946-1954.\<close>

definition get_enabled_screens :: "dimmer_control \<Rightarrow> int list" where
  "get_enabled_screens self =
     [0] @ (if second_display_enabled self \<and> 1 < screen_count self then [1] else [])"

text \<open>
  \<^verbatim>\<open>_apply_dimming_to_screen\<close>, lines 1956-1963. The overlay is an object held in the
  dictionary, so \<^verbatim>\<open>overlay.set_dimming\<close> updates the entry.
\<close>

definition apply_dimming_to_screen ::
    "dimmer_control \<Rightarrow> int \<Rightarrow> int \<Rightarrow> qcolor option \<Rightarrow> dimmer_control" where
  "apply_dimming_to_screen self screen_index opacity color =
     (case get_overlay_for_screen self screen_index of
        (self, Some overlay) \<Rightarrow>
          self\<lparr>overlays := (overlays self)(screen_index \<mapsto> set_dimming overlay opacity color)\<rparr>
      | (self, None) \<Rightarrow> self)"

text \<open>
  The tint-only percentage, written out at lines 2076-2079, 2188-2191, 2264-2267 and
  2276-2279.
\<close>

definition tint_only_opacity :: "int \<Rightarrow> int" where
  "tint_only_opacity intensity =
     (if intensity = 0 then 0 else py_int (real_of_int intensity * 0.12))"

text \<open>\<^verbatim>\<open>_update_blue_light\<close>, lines 2173-2200.\<close>

definition update_blue_light :: "dimmer_control \<Rightarrow> dimmer_control" where
  "update_blue_light self =
     (if blue_light_active self then
        (case get_overlay_for_screen self 0 of
           (self, Some overlay) \<Rightarrow>
             (let intensity = blue_intensity self;
                  color = calculate_blue_light_color intensity
              in if dimmer_active self
                 then self\<lparr>overlays := (overlays self)
                              (0 \<mapsto> set_dimming overlay (current_dim self) (Some color))\<rparr>
                 else self\<lparr>overlays := (overlays self)
                              (0 \<mapsto> set_dimming overlay (tint_only_opacity intensity)
                                        (Some color))\<rparr>)
         | (self, None) \<Rightarrow> self)
      else if \<not> dimmer_active self then close_overlay_for_screen self 0
      else apply_dimming_to_screen self 0 (current_dim self) None)"

text \<open>
  \<^verbatim>\<open>_update_second_display\<close>, lines 2060-2082. With the second display's blue light
  on, line 2068 passes the attribute to \<^verbatim>\<open>_calculate_blue_light_color\<close>; for the slider
  widget the test \<^verbatim>\<open>intensity == 0\<close> is false and \<^verbatim>\<open>intensity * 0.55\<close> raises
  \<^verbatim>\<open>TypeError\<close>, which nothing on the way up catches. With the blue light off the
  colour is \<^verbatim>\<open>None\<close> and the attribute is not used.
\<close>

definition update_second_display :: "dimmer_control \<Rightarrow> error + dimmer_control" where
  "update_second_display self =
     (if \<not> second_display_enabled self then Inr self
      else
        (case get_overlay_for_screen self 1 of
           (self, Some overlay) \<Rightarrow>
             (if second_display_blue_light self then
                (case second_display_blue_intensity self of
                   SliderWidget \<Rightarrow> Inl TypeError
                 | IntValue intensity \<Rightarrow>
                     (let color = Some (calculate_blue_light_color intensity)
                      in if dimmer_active self
                         then Inr (self\<lparr>overlays := (overlays self)
                                 (1 \<mapsto> set_dimming overlay (second_display_dim self) color)\<rparr>)
                         else Inr (self\<lparr>overlays := (overlays self)
                                 (1 \<mapsto> set_dimming overlay (tint_only_opacity intensity)
                                           color)\<rparr>)))
              else Inr (self\<lparr>overlays := (overlays self)
                           (1 \<mapsto> set_dimming overlay (second_display_dim self) None)\<rparr>))
         | (self, None) \<Rightarrow> Inr self))"

text \<open>
  The bodies of the two loops over the enabled screens in \<^verbatim>\<open>_toggle_dimmer\<close>:
  lines 2214-2222 when the dimmer is switched on, lines 2256-2280 when it is switched off.
  Lines 2274-2275 pass the second display's attribute to
  \<^verbatim>\<open>_calculate_blue_light_color\<close> too, and raise on the widget.
\<close>

definition enable_screen :: "int \<Rightarrow> dimmer_control \<Rightarrow> error + dimmer_control" where
  "enable_screen screen_idx self =
     (if screen_idx = 0 then
        (if blue_light_active self then Inr (update_blue_light self)
         else Inr (apply_dimming_to_screen self 0 (current_dim self) None))
      else if screen_idx = 1 then
        (if second_display_enabled self then update_second_display self else Inr self)
      else Inr self)"

definition disable_screen :: "int \<Rightarrow> dimmer_control \<Rightarrow> error + dimmer_control" where
  "disable_screen screen_idx self =
     (if screen_idx = 0 then
        (if \<not> blue_light_active self then Inr (close_overlay_for_screen self 0)
         else
           (let intensity = blue_intensity self;
                color = calculate_blue_light_color intensity;
                opacity = tint_only_opacity intensity
            in Inr (apply_dimming_to_screen self 0 opacity (Some color))))
      else if screen_idx = 1 then
        (if \<not> second_display_blue_light self then Inr (close_overlay_for_screen self 1)
         else
           (case second_display_blue_intensity self of
              SliderWidget \<Rightarrow> Inl TypeError
            | IntValue intensity \<Rightarrow>
                (let color = calculate_blue_light_color intensity;
                     opacity = tint_only_opacity intensity
                 in Inr (apply_dimming_to_screen self 1 opacity (Some color)))))
      else Inr self)"

text \<open>A \<^verbatim>\<open>for\<close> loop over the screens that an exception leaves at once.\<close>

fun for_each_screen ::
    "(int \<Rightarrow> dimmer_control \<Rightarrow> error + dimmer_control) \<Rightarrow> int list \<Rightarrow> dimmer_control
     \<Rightarrow> error + dimmer_control" where
  "for_each_screen body [] self = Inr self"
| "for_each_screen body (screen_idx # rest) self =
     (case body screen_idx self of
        Inl e \<Rightarrow> Inl e
      | Inr self \<Rightarrow> for_each_screen body rest self)"

text \<open>
  \<^verbatim>\<open>_toggle_dimmer\<close>, lines 2202-2308. The guard flag is set on entry and cleared in the
  \<^verbatim>\<open>finally\<close> clause. Only the branch that switches the dimmer on ends with
  \<^verbatim>\<open>self._save_state()\<close> (line 2251). There is no \<^verbatim>\<open>except\<close> clause: an exception
  raised in a loop leaves the method before \<^verbatim>\<open>dimmer_active\<close> is assigned and goes on
  to the caller; the result \<open>Inl\<close> stands for that and does not describe the object the
  exception leaves behind.
\<close>

definition toggle_dimmer :: "dimmer_control \<Rightarrow> error + dimmer_control" where
  "toggle_dimmer self =
     (if toggle_in_progress self then Inr self
      else
        (let self = self\<lparr>toggle_in_progress := True\<rparr>
         in case (if \<not> dimmer_active self then
                    (let enabled_screens = get_enabled_screens self
                     in case for_each_screen enable_screen enabled_screens self of
                          Inl e \<Rightarrow> Inl e
                        | Inr self \<Rightarrow> Inr (save_state (self\<lparr>dimmer_active := True\<rparr>)))
                  else
                    (let enabled_screens = get_enabled_screens self
                     in case for_each_screen disable_screen enabled_screens self of
                          Inl e \<Rightarrow> Inl e
                        | Inr self \<Rightarrow> Inr (self\<lparr>dimmer_active := False\<rparr>)))
            of Inl e \<Rightarrow> Inl e
             | Inr self \<Rightarrow> Inr (self\<lparr>toggle_in_progress := False\<rparr>)))"

text \<open>\<^verbatim>\<open>_on_dim_changed\<close>, lines 1968-1985.\<close>

definition on_dim_changed :: "dimmer_control \<Rightarrow> int \<Rightarrow> dimmer_control" where
  "on_dim_changed self v =
     (let self = self\<lparr>current_dim := v\<rparr>;
          self = save_state self
      in if dimmer_active self then
           (if blue_light_active self then update_blue_light self
            else apply_dimming_to_screen self 0 v None)
         else self)"

text \<open>
  \<^verbatim>\<open>self.dim_slider.setValue(v)\<close>: Qt bounds the value to the slider's range, does
  nothing when the bounded value is the current one, and otherwise stores it and emits
  \<^verbatim>\<open>valueChanged\<close>, which is connected to \<^verbatim>\<open>_on_dim_changed\<close> (line 1033).
\<close>

definition dim_slider_setValue :: "dimmer_control \<Rightarrow> int \<Rightarrow> dimmer_control" where
  "dim_slider_setValue self v =
     (let bounded = max 0 (min 95 v)
      in if bounded = dim_slider self then self
         else on_dim_changed (self\<lparr>dim_slider := bounded\<rparr>) bounded)"

text \<open>
  \<^verbatim>\<open>_check_schedule\<close>, lines 3092-3163, at the clock reading \<open>current_time\<close>. Comparing
  with a time that is still \<^verbatim>\<open>None\<close> raises, and an exception of \<^verbatim>\<open>_toggle_dimmer\<close>
  passes through.
\<close>

definition check_schedule :: "qtime \<Rightarrow> dimmer_control \<Rightarrow> error + dimmer_control" where
  "check_schedule current_time self =
     (if \<not> schedule_enabled self \<or> \<not> schedule_time_set self then
        Inr (if \<not> schedule_time_set self
             then self\<lparr>schedule_timer_running := False, time_remaining_timer_running := False\<rparr>
             else self)
      else
        (case (start_time self, end_time self) of
           (Some start, Some end_t) \<Rightarrow>
             (if in_schedule current_time start end_t then
                (if \<not> dimmer_active self
                 then toggle_dimmer (dim_slider_setValue self (schedule_dim_value self))
                 else Inr self)
              else
                (if dimmer_active self \<and> \<not> blue_light_active self
                 then toggle_dimmer self
                 else Inr self))
         | _ \<Rightarrow> Inl UncaughtError))"


subsection \<open>Auxiliary notions for the proofs\<close>

text \<open>
  The six bands of the curve without a colour, with the opacity at which each starts and
  the opacity it cannot exceed.
\<close>

definition band :: "int \<Rightarrow> nat" where
  "band p = (if p \<le> 5 then 0 else if p \<le> 15 then 1 else if p \<le> 30 then 2
             else if p \<le> 50 then 3 else if p \<le> 75 then 4 else 5)"

definition band_lo :: "nat \<Rightarrow> real" where
  "band_lo k = [0, 0.20, 0.40, 0.65, 0.80, 0.92] ! k"

definition band_hi :: "nat \<Rightarrow> real" where
  "band_hi k = [0.20, 0.40, 0.65, 0.80, 0.92, 0.99] ! k"

text \<open>Two controller states that differ at most in their overlays.\<close>

definition same_but_overlays :: "dimmer_control \<Rightarrow> dimmer_control \<Rightarrow> bool" where
  "same_but_overlays s s' = (s' = s\<lparr>overlays := overlays s'\<rparr>)"

text \<open>
  What the state file holds under a key, and whether it agrees with the dimmer state in
  memory (the flag and the percentage).
\<close>

definition persisted_value :: "dimmer_control \<Rightarrow> string \<Rightarrow> json option" where
  "persisted_value s key = (case state_file s of None \<Rightarrow> None | Some d \<Rightarrow> map_of d key)"

definition dim_state_persisted :: "dimmer_control \<Rightarrow> bool" where
  "dim_state_persisted s =
     (persisted_value s ''dimmer_active'' = Some (JBool (dimmer_active s)) \<and>
      persisted_value s ''current_dim'' = Some (JInt (current_dim s)))"

text \<open>
  The scenario of the specification: the schedule 18:00 to 06:00 at 90 percent (the values
  of the preset \<^verbatim>\<open>all_night\<close>, lines 2603-2606), enabled, on one screen with a writable
  state file; once with the dimmer off at the default 25 percent and once after the user
  has switched it on at 25 percent (on one screen that call does not raise).
\<close>

definition all_night_schedule :: "dimmer_control \<Rightarrow> dimmer_control" where
  "all_night_schedule s =
     s\<lparr>start_time := Some (QTime 18 0), end_time := Some (QTime 6 0),
       schedule_dim_value := 90, schedule_time_set := True, schedule_enabled := True,
       schedule_timer_running := True, time_remaining_timer_running := True\<rparr>"

definition scenario_off :: dimmer_control where
  "scenario_off = all_night_schedule (DimmerControl 1 None True)"

definition scenario_on :: dimmer_control where
  "scenario_on =
     (case toggle_dimmer (DimmerControl 1 None True) of
        Inr s \<Rightarrow> all_night_schedule s
      | Inl e \<Rightarrow> scenario_off)"

text \<open>
  The states in which switching the dimmer on or off raises: the second display is enabled
  on a system with at least two screens, its blue light is on, and its intensity
  attribute still holds the slider widget.
\<close>

definition second_display_tint_raises :: "dimmer_control \<Rightarrow> bool" where
  "second_display_tint_raises s =
     (second_display_enabled s \<and> 1 < screen_count s \<and> second_display_blue_light s \<and>
      second_display_blue_intensity s = SliderWidget)"

text \<open>
  The same schedule on two screens, dimmer off, with the second display and its blue light
  switched on in a session that loaded no saved state and never moved the second
  display's intensity slider.
\<close>

definition scenario_two_screens :: dimmer_control where
  "scenario_two_screens =
     (all_night_schedule (DimmerControl 2 None True))
       \<lparr>second_display_enabled := True, second_display_blue_light := True\<rparr>"

section \<open>Opacity curve\<close>

lemma powr_unit:
  "0 \<le> (x::real) \<Longrightarrow> x \<le> 1 \<Longrightarrow> 0 \<le> a \<Longrightarrow> 0 \<le> x powr a \<and> x powr a \<le> 1"
  using powr_mono2 [of a x 1] by simp

lemma seg_bounds:
  assumes "0 \<le> (n::real)" "n \<le> 1" "0 \<le> a" "0 \<le> w"
  shows "lo \<le> lo + (n powr a) * w" "lo + (n powr a) * w \<le> lo + w"
proof -
  from powr_unit [OF assms(1,2,3)] have b: "0 \<le> n powr a" "n powr a \<le> 1" by simp_all
  show "lo \<le> lo + (n powr a) * w" using b(1) assms(4) by simp
  have "(n powr a) * w \<le> 1 * w" using b(2) assms(4) by (rule mult_right_mono)
  then show "lo + (n powr a) * w \<le> lo + w" by simp
qed

lemma seg_mono:
  assumes "0 \<le> (m::real)" "m \<le> n" "0 \<le> a" "0 \<le> w"
  shows "lo + (m powr a) * w \<le> lo + (n powr a) * w"
proof -
  have "m powr a \<le> n powr a" using assms(1,2,3) by (simp add: powr_mono2)
  then have "(m powr a) * w \<le> (n powr a) * w" using assms(4) by (rule mult_right_mono)
  then show ?thesis by simp
qed

lemma curve_bounds:
  assumes "c \<le> p" "real_of_int (p - c) \<le> d" "0 < d" "0 \<le> a" "0 \<le> w"
  shows "lo \<le> lo + ((real_of_int (p - c) / d) powr a) * w \<and>
         lo + ((real_of_int (p - c) / d) powr a) * w \<le> lo + w"
  using seg_bounds [of "real_of_int (p - c) / d" a w lo] assms by simp

lemma curve_mono:
  assumes "c \<le> p" "p \<le> q" "0 < d" "0 \<le> a" "0 \<le> w"
  shows "lo + ((real_of_int (p - c) / d) powr a) * w
         \<le> lo + ((real_of_int (q - c) / d) powr a) * w"
  using seg_mono [of "real_of_int (p - c) / d" "real_of_int (q - c) / d" a w lo] assms
  by (simp add: divide_right_mono)

lemma black_band:
  assumes "0 \<le> p" "p \<le> 95"
  shows "band_lo (band p) \<le> black_opacity p \<and> black_opacity p \<le> band_hi (band p)"
  using assms
   curve_bounds [of 5 p 10 "1.0" "0.20" "0.20"]
   curve_bounds [of 15 p 15 "1.2" "0.25" "0.40"]
   curve_bounds [of 30 p 20 "1.4" "0.15" "0.65"]
   curve_bounds [of 50 p 25 "1.6" "0.12" "0.80"]
   curve_bounds [of 75 p 20 "2.5" "0.07" "0.92"]
  unfolding black_opacity_def band_def band_hi_def band_lo_def Let_def
  by (simp split: if_splits)

lemma black_same_band:
  assumes "0 \<le> p" "p \<le> q" "q \<le> 95" "band p = band q"
  shows "black_opacity p \<le> black_opacity q"
  using assms
   curve_mono [of 5 p q 10 "1.0" "0.20" "0.20"]
   curve_mono [of 15 p q 15 "1.2" "0.25" "0.40"]
   curve_mono [of 30 p q 20 "1.4" "0.15" "0.65"]
   curve_mono [of 50 p q 25 "1.6" "0.12" "0.80"]
   curve_mono [of 75 p q 20 "2.5" "0.07" "0.92"]
  unfolding black_opacity_def band_def Let_def
  by (simp split: if_splits)

lemma band_mono: "p \<le> q \<Longrightarrow> band p \<le> band q"
  unfolding band_def by simp

lemma band_le5: "band p \<le> 5"
  unfolding band_def by simp

lemma band_chain: "j < k \<Longrightarrow> k \<le> 5 \<Longrightarrow> band_hi j \<le> band_lo k"
proof -
  assume "j < k" "k \<le> 5"
  then have "k \<in> {1,2,3,4,5}" "j < k" by auto
  then show ?thesis unfolding band_hi_def band_lo_def
    by (auto simp: less_Suc_eq numeral_eq_Suc)
qed

lemma black_mono:
  assumes "0 \<le> p" "p \<le> q" "q \<le> 95"
  shows "black_opacity p \<le> black_opacity q"
proof (cases "band p = band q")
  case True
  with assms show ?thesis by (rule black_same_band)
next
  case False
  with band_mono [OF assms(2)] have lt: "band p < band q" by simp
  have "black_opacity p \<le> band_hi (band p)" using black_band [of p] assms by simp
  also have "\<dots> \<le> band_lo (band q)" using band_chain [OF lt band_le5] .
  also have "\<dots> \<le> black_opacity q" using black_band [of q] assms by simp
  finally show ?thesis .
qed

lemma actual_opacity_None:
  "0 \<le> p \<Longrightarrow> p \<le> 95 \<Longrightarrow> actual_opacity p None = max 0 (min 0.99 (black_opacity p))"
  unfolding actual_opacity_def validate_opacity_def Let_def by simp

lemma clamp_mono: "(x::real) \<le> y \<Longrightarrow> max 0 (min 0.99 x) \<le> max 0 (min 0.99 y)"
  by (simp add: max_def min_def)

text \<open>
  Claim C1. Without a tint colour the overlay opacity never decreases when the percentage
  grows within 0 to 95; it is exactly 0.0 at 0 percent and at least 0.92 at 95 percent.
\<close>

theorem black_opacity_monotone:
  assumes "0 \<le> p" "p \<le> q" "q \<le> 95"
  shows "actual_opacity p None \<le> actual_opacity q None \<and>
         actual_opacity 0 None = 0.0 \<and>
         0.92 \<le> actual_opacity 95 None"
proof -
  have "black_opacity p \<le> black_opacity q" using assms by (rule black_mono)
  then have "max 0 (min 0.99 (black_opacity p)) \<le> max 0 (min 0.99 (black_opacity q))"
    by (rule clamp_mono)
  then have m: "actual_opacity p None \<le> actual_opacity q None"
    using assms by (simp add: actual_opacity_None)
  have z: "actual_opacity 0 None = 0.0"
    unfolding actual_opacity_def validate_opacity_def black_opacity_def Let_def by simp
  have t: "0.92 \<le> actual_opacity 95 None"
    unfolding actual_opacity_def validate_opacity_def black_opacity_def Let_def by simp
  from m z t show ?thesis by simp
qed

theorem black_opacity_monotone_witness:
  "(0::int) \<le> 10 \<and> (10::int) \<le> 20 \<and> (20::int) \<le> 95 \<and>
   actual_opacity 10 None \<le> actual_opacity 20 None"
  using black_opacity_monotone [of 10 20] by simp

text \<open>
  Claim C2. For every integer percentage, also outside 0 to 95, and with or without a
  tint colour, the opacity computed by \<^verbatim>\<open>set_dimming\<close> lies in the closed interval from
  0.0 to 0.99 and is never 1.0. The opacity of the \<^verbatim>\<open>except\<close> branch obeys the same bounds.
\<close>

theorem actual_opacity_range:
  "0.0 \<le> actual_opacity opacity color \<and> actual_opacity opacity color \<le> 0.99 \<and>
   actual_opacity opacity color \<noteq> 1.0 \<and>
   window_opacity (set_dimming self opacity color) = actual_opacity opacity color \<and>
   0.0 \<le> fallback_opacity opacity \<and> fallback_opacity opacity \<le> 0.99"
proof -
  have a: "0 \<le> max 0.0 (min 0.99 x) \<and> max 0.0 (min 0.99 x) \<le> 0.99" for x :: real by simp
  have "0 \<le> actual_opacity opacity color \<and> actual_opacity opacity color \<le> 0.99"
    unfolding actual_opacity_def Let_def by (rule a)
  moreover have "0 \<le> fallback_opacity opacity \<and> fallback_opacity opacity \<le> 0.99"
    unfolding fallback_opacity_def validate_opacity_def by simp
  moreover have "window_opacity (set_dimming self opacity color) = actual_opacity opacity color"
    unfolding set_dimming_def by simp
  ultimately show ?thesis by simp
qed

text \<open>
  Claim C8. With a tint colour present and a percentage in 0 to 95 that is at most 12, the
  computed opacity is exactly the percentage divided by 100; the final clamp has no effect.
\<close>

theorem tint_opacity_linear:
  assumes "0 \<le> percent" "percent \<le> 95" "percent \<le> 12"
  shows "actual_opacity percent (Some c) = real_of_int percent / 100"
  using assms unfolding actual_opacity_def validate_opacity_def tint_opacity_def Let_def
  by simp

theorem tint_opacity_linear_witness:
  "actual_opacity 7 (Some (QColor 255 200 150)) = 0.07"
  using tint_opacity_linear [of 7 "QColor 255 200 150"] by simp

text \<open>
  Claim C10. With a tint colour present the opacity jumps between 12 and 13 percent: it is
  0.12 at 12 and 0.26 (13 times 2.0 over 100) at 13, more than twice as much.
\<close>

theorem tint_opacity_jump:
  "actual_opacity 12 (Some c) = 0.12 \<and>
   actual_opacity 13 (Some c) = 0.26 \<and>
   actual_opacity 13 (Some c) = 13 * 2.0 / 100 \<and>
   2 * actual_opacity 12 (Some c) < actual_opacity 13 (Some c)"
  unfolding actual_opacity_def validate_opacity_def tint_opacity_def Let_def by simp

section \<open>Tint colour\<close>

text \<open>
  Claim C9. The tint colour is (255, 255, 255) at intensity 0 and (255, 200, 150) at
  intensity 100; for every intensity from 0 to 100 the red channel is 255, the green
  channel at least 200 and the blue channel at least 150.
\<close>

theorem blue_light_color_bounds:
  assumes "0 \<le> intensity" "intensity \<le> 100"
  shows "calculate_blue_light_color 0 = QColor 255 255 255 \<and>
         calculate_blue_light_color 100 = QColor 255 200 150 \<and>
         red (calculate_blue_light_color intensity) = 255 \<and>
         200 \<le> green (calculate_blue_light_color intensity) \<and>
         150 \<le> blue (calculate_blue_light_color intensity)"
proof -
  have e: "calculate_blue_light_color 0 = QColor 255 255 255 \<and>
           calculate_blue_light_color 100 = QColor 255 200 150"
    unfolding calculate_blue_light_color_def py_int_def Let_def by simp
  have b: "red (calculate_blue_light_color intensity) = 255 \<and>
           200 \<le> green (calculate_blue_light_color intensity) \<and>
           150 \<le> blue (calculate_blue_light_color intensity)"
    unfolding calculate_blue_light_color_def QColor_def Let_def by simp
  from e b show ?thesis by simp
qed

theorem blue_light_color_bounds_witness:
  "calculate_blue_light_color 37 = QColor 255 234 216 \<and>
   red (calculate_blue_light_color 37) = 255 \<and>
   200 \<le> green (calculate_blue_light_color 37) \<and>
   150 \<le> blue (calculate_blue_light_color 37)"
proof -
  have v: "calculate_blue_light_color 37 = QColor 255 234 216"
    unfolding calculate_blue_light_color_def py_int_def Let_def by simp
  show ?thesis using blue_light_color_bounds [of 37] v by simp
qed


section \<open>Schedule window\<close>

lemma qtime_less_iff: "qtime_less a b = (\<not> qtime_le b a)"
  unfolding qtime_less_def qtime_le_def by auto

text \<open>
  Claim C3. The in-window test of the schedule check: for a same-day window (start not
  after end) it holds exactly when the current time lies between start and end, both
  included; for an overnight window (start after end) it holds exactly when the current
  time is at or after the start or at or before the end. With start 22:00 and end 06:00
  it holds at 23:30 and at 02:00 and fails at 12:00. The equivalences hold for all times,
  so also for all with start different from end.
\<close>

theorem in_schedule_window:
  "(qtime_le start end_t \<longrightarrow>
      in_schedule now start end_t = (qtime_le start now \<and> qtime_le now end_t)) \<and>
   (qtime_less end_t start \<longrightarrow>
      in_schedule now start end_t = (qtime_le start now \<or> qtime_le now end_t)) \<and>
   in_schedule (QTime 23 30) (QTime 22 0) (QTime 6 0) \<and>
   in_schedule (QTime 2 0) (QTime 22 0) (QTime 6 0) \<and>
   \<not> in_schedule (QTime 12 0) (QTime 22 0) (QTime 6 0)"
proof -
  have g: "(qtime_le start end_t \<longrightarrow>
              in_schedule now start end_t = (qtime_le start now \<and> qtime_le now end_t)) \<and>
           (qtime_less end_t start \<longrightarrow>
              in_schedule now start end_t = (qtime_le start now \<or> qtime_le now end_t))"
    unfolding in_schedule_def qtime_less_iff by simp
  have c: "in_schedule (QTime 23 30) (QTime 22 0) (QTime 6 0) \<and>
           in_schedule (QTime 2 0) (QTime 22 0) (QTime 6 0) \<and>
           \<not> in_schedule (QTime 12 0) (QTime 22 0) (QTime 6 0)"
    unfolding in_schedule_def qtime_le_def msecs_since_start_of_day_def QTime_def by simp
  from g c show ?thesis by simp
qed

theorem in_schedule_window_witness:
  "qtime_le (QTime 6 0) (QTime 18 0) \<and>
   in_schedule (QTime 20 0) (QTime 6 0) (QTime 18 0)
     = (qtime_le (QTime 6 0) (QTime 20 0) \<and> qtime_le (QTime 20 0) (QTime 18 0)) \<and>
   \<not> in_schedule (QTime 20 0) (QTime 6 0) (QTime 18 0) \<and>
   qtime_less (QTime 7 0) (QTime 20 0) \<and>
   in_schedule (QTime 1 15) (QTime 20 0) (QTime 7 0)
     = (qtime_le (QTime 20 0) (QTime 1 15) \<or> qtime_le (QTime 1 15) (QTime 7 0)) \<and>
   in_schedule (QTime 1 15) (QTime 20 0) (QTime 7 0)"
proof -
  have a: "qtime_le (QTime 6 0) (QTime 18 0)" "\<not> qtime_le (QTime 20 0) (QTime 18 0)"
    unfolding qtime_le_def msecs_since_start_of_day_def QTime_def by simp_all
  have b: "qtime_less (QTime 7 0) (QTime 20 0)" "qtime_le (QTime 1 15) (QTime 7 0)"
    unfolding qtime_less_def qtime_le_def msecs_since_start_of_day_def QTime_def by simp_all
  show ?thesis
    using in_schedule_window [of "QTime 6 0" "QTime 18 0" "QTime 20 0"]
          in_schedule_window [of "QTime 20 0" "QTime 7 0" "QTime 1 15"] a b
    by simp
qed

section \<open>Remaining time\<close>

lemma scale_le:
  "0 \<le> r \<Longrightarrow> r < 60000 \<Longrightarrow> (60000 * a \<le> 60000 * b + r) = (a \<le> (b::int))"
  by auto

lemma scale_ge: "0 \<le> r \<Longrightarrow> r < 60000 \<Longrightarrow> 60000 * b + r \<le> 60000 * a \<Longrightarrow> b \<le> (a::int)"
  by linarith

lemma scale_gt:
  "0 \<le> r \<Longrightarrow> r < 60000 \<Longrightarrow> \<not> 60000 * b + r \<le> 60000 * a \<Longrightarrow> a \<le> (b::int)"
  by linarith

lemma msecs_split:
  "msecs_since_start_of_day t =
     60000 * (hour t * 60 + minute t) + (second t * 1000 + msec t)"
  unfolding msecs_since_start_of_day_def by simp

lemma msecs_QTime: "msecs_since_start_of_day (QTime h m) = 60000 * (h * 60 + m)"
  unfolding msecs_since_start_of_day_def QTime_def by simp

lemma sub_minute:
  "valid_qtime t \<Longrightarrow> 0 \<le> second t * 1000 + msec t \<and> second t * 1000 + msec t < 60000"
  unfolding valid_qtime_def by simp

lemma hm_le_now:
  assumes "valid_qtime now"
  shows "qtime_le (QTime h m) now
         = (h * 3600 + m * 60 \<le> hour now * 3600 + minute now * 60)"
proof -
  from sub_minute [OF assms]
  have r: "0 \<le> second now * 1000 + msec now" "second now * 1000 + msec now < 60000"
    by simp_all
  have "qtime_le (QTime h m) now = (h * 60 + m \<le> hour now * 60 + minute now)"
    unfolding qtime_le_def msecs_QTime msecs_split [of now] by (rule scale_le [OF r])
  also have "\<dots> = (h * 3600 + m * 60 \<le> hour now * 3600 + minute now * 60)" by auto
  finally show ?thesis .
qed

lemma now_le_hm:
  assumes "valid_qtime now" "qtime_le now (QTime h m)"
  shows "hour now * 3600 + minute now * 60 \<le> h * 3600 + m * 60"
proof -
  from sub_minute [OF assms(1)]
  have r: "0 \<le> second now * 1000 + msec now" "second now * 1000 + msec now < 60000"
    by simp_all
  have "hour now * 60 + minute now \<le> h * 60 + m"
    using assms(2) unfolding qtime_le_def msecs_QTime msecs_split [of now]
    by (rule scale_ge [OF r])
  then show ?thesis by simp
qed

lemma not_now_le_hm:
  assumes "valid_qtime now" "\<not> qtime_le now (QTime h m)"
  shows "h * 3600 + m * 60 \<le> hour now * 3600 + minute now * 60"
proof -
  from sub_minute [OF assms(1)]
  have r: "0 \<le> second now * 1000 + msec now" "second now * 1000 + msec now < 60000"
    by simp_all
  have "h * 60 + m \<le> hour now * 60 + minute now"
    using assms(2) unfolding qtime_le_def msecs_QTime msecs_split [of now]
    by (rule scale_gt [OF r])
  then show ?thesis by simp
qed

lemma hm_le_hm:
  "qtime_le (QTime h m) (QTime h' m') = (h * 3600 + m * 60 \<le> h' * 3600 + m' * 60)"
  unfolding qtime_le_def msecs_QTime by auto

lemma hm_neq:
  assumes "0 \<le> m" "m < 60" "0 \<le> m'" "m' < 60" "QTime h m \<noteq> QTime h' m'"
  shows "h * 3600 + m * 60 \<noteq> h' * 3600 + m' * 60"
proof
  assume eq: "h * 3600 + m * 60 = h' * 3600 + m' * 60"
  have "\<not> h < h'" using eq assms(1-4) by linarith
  moreover have "\<not> h' < h" using eq assms(1-4) by linarith
  ultimately have "h = h'" by simp
  with eq have "m = m'" by simp
  with \<open>h = h'\<close> assms(5) show False by simp
qed

text \<open>
  Claim C7. For every valid current time and every pair of distinct schedule times (built
  by \<^verbatim>\<open>QTime(h, m)\<close>, as all schedule times of the program are), the remaining-seconds
  computation of \<^verbatim>\<open>_update_time_remaining\<close> returns the seconds, at minute granularity, to
  the far edge of the window (its end when the current time is inside, its start when
  outside); the value is never negative; and 24 hours are added exactly when the naive
  difference is negative, which is exactly an overnight window with the current time at or
  after the start, or a same-day window that the current time has already left.
\<close>

theorem remaining_seconds_far_edge:
  assumes "valid_qtime now" "valid_qtime (QTime sh sm)" "valid_qtime (QTime eh em)"
    "QTime sh sm \<noteq> QTime eh em"
  shows "remaining_seconds now (QTime sh sm) (QTime eh em)
           = seconds_until_boundary now (QTime sh sm) (QTime eh em) \<and>
         0 \<le> remaining_seconds now (QTime sh sm) (QTime eh em) \<and>
         (naive_remaining now (QTime sh sm) (QTime eh em) < 0)
           = day_added now (QTime sh sm) (QTime eh em) \<and>
         remaining_seconds now (QTime sh sm) (QTime eh em)
           = naive_remaining now (QTime sh sm) (QTime eh em)
             + (if day_added now (QTime sh sm) (QTime eh em) then 24 * 3600 else 0)"
proof -
  let ?S = "sh * 3600 + sm * 60" and ?E = "eh * 3600 + em * 60"
  let ?N = "hour now * 3600 + minute now * 60"
  note v = assms(1)
  have sel: "hour (QTime sh sm) = sh" "minute (QTime sh sm) = sm"
            "hour (QTime eh em) = eh" "minute (QTime eh em) = em"
    unfolding QTime_def by simp_all
  have bs: "0 \<le> sh" "sh < 24" "0 \<le> sm" "sm < 60"
    and be: "0 \<le> eh" "eh < 24" "0 \<le> em" "em < 60"
    using assms(2,3) unfolding valid_qtime_def QTime_def by simp_all
  have bn: "0 \<le> ?N" "?N < 86400" using v unfolding valid_qtime_def by simp_all
  have ne: "?S \<noteq> ?E" using hm_neq [OF bs(3,4) be(3,4) assms(4)] .
  have se: "qtime_le (QTime sh sm) (QTime eh em) = (?S \<le> ?E)" by (rule hm_le_hm)
  have sn: "qtime_le (QTime sh sm) now = (?S \<le> ?N)" by (rule hm_le_now [OF v])
  have ne1: "qtime_le now (QTime eh em) \<Longrightarrow> ?N \<le> ?E" by (rule now_le_hm [OF v])
  have ne2: "\<not> qtime_le now (QTime eh em) \<Longrightarrow> ?E \<le> ?N" by (rule not_now_le_hm [OF v])
  show ?thesis
  proof (cases "qtime_le now (QTime eh em)")
    case True
    from ne1 [OF True] have "?N \<le> ?E" .
    with True ne bs be bn show ?thesis
      unfolding remaining_seconds_def seconds_until_boundary_def naive_remaining_def
        far_edge_def day_added_def in_schedule_def qtime_less_iff minute_seconds_def Let_def
        sel se sn
      by (auto simp: sel)
  next
    case False
    from ne2 [OF False] have "?E \<le> ?N" .
    with False ne bs be bn show ?thesis
      unfolding remaining_seconds_def seconds_until_boundary_def naive_remaining_def
        far_edge_def day_added_def in_schedule_def qtime_less_iff minute_seconds_def Let_def
        sel se sn
      by (auto simp: sel)
  qed
qed

theorem remaining_seconds_far_edge_witness:
  "valid_qtime \<lparr>hour = 23, minute = 30, second = 15, msec = 250\<rparr> \<and>
   valid_qtime (QTime 22 0) \<and> valid_qtime (QTime 6 0) \<and> QTime 22 0 \<noteq> QTime 6 0 \<and>
   remaining_seconds \<lparr>hour = 23, minute = 30, second = 15, msec = 250\<rparr> (QTime 22 0) (QTime 6 0)
     = 23400 \<and>
   seconds_until_boundary \<lparr>hour = 23, minute = 30, second = 15, msec = 250\<rparr>
     (QTime 22 0) (QTime 6 0) = 23400 \<and>
   day_added \<lparr>hour = 23, minute = 30, second = 15, msec = 250\<rparr> (QTime 22 0) (QTime 6 0)"
proof -
  let ?now = "\<lparr>hour = 23, minute = 30, second = 15, msec = 250\<rparr>"
  have h: "valid_qtime ?now" "valid_qtime (QTime 22 0)" "valid_qtime (QTime 6 0)"
    "QTime 22 0 \<noteq> QTime 6 0"
    unfolding valid_qtime_def QTime_def by simp_all
  have r: "remaining_seconds ?now (QTime 22 0) (QTime 6 0) = 23400"
    unfolding remaining_seconds_def in_schedule_def qtime_le_def qtime_less_def
      msecs_since_start_of_day_def QTime_def Let_def
    by simp
  have d: "day_added ?now (QTime 22 0) (QTime 6 0)"
    unfolding day_added_def in_schedule_def qtime_le_def msecs_since_start_of_day_def
      QTime_def
    by simp
  show ?thesis using remaining_seconds_far_edge [OF h] h r d by simp
qed


section \<open>Profiles\<close>

text \<open>
  Claim C5. With the profiles file missing or malformed, constructing the manager (which
  calls \<^verbatim>\<open>load\<close>) puts exactly the four built-in defaults into memory. The claim also says
  that \<^verbatim>\<open>load\<close> writes them to the file at once; the code calls \<^verbatim>\<open>save\<close> for that, but
  the cache is clean at that point, \<^verbatim>\<open>save\<close> returns at its first test and the file
  stays as it was, here evaluated on a writable disk.
\<close>

theorem load_defaults_not_persisted:
  "ProfileManager FileMissing True =
     Inr \<lparr>profiles = [(''Night Mode'', Profile 85 True 60), (''Reading'', Profile 60 False 0),
                       (''Gaming'', Profile 50 False 0), (''Movie'', Profile 80 True 30)],
          cache_dirty = False, profiles_on_disk = FileMissing, profiles_writable = True\<rparr> \<and>
   ProfileManager MalformedJson True =
     Inr \<lparr>profiles = [(''Night Mode'', Profile 85 True 60), (''Reading'', Profile 60 False 0),
                       (''Gaming'', Profile 50 False 0), (''Movie'', Profile 80 True 30)],
          cache_dirty = False, profiles_on_disk = MalformedJson, profiles_writable = True\<rparr>"
  unfolding ProfileManager_def load_def save_def get_defaults_def by simp

section \<open>Controller\<close>

lemma sbo_refl: "same_but_overlays s s"
  unfolding same_but_overlays_def by simp

lemma sbo_upd: "same_but_overlays s (s\<lparr>overlays := m\<rparr>)"
  unfolding same_but_overlays_def by simp

lemma sbo_trans:
  "same_but_overlays s t \<Longrightarrow> same_but_overlays t u \<Longrightarrow> same_but_overlays s u"
  unfolding same_but_overlays_def
proof -
  assume a: "t = s\<lparr>overlays := overlays t\<rparr>" and b: "u = t\<lparr>overlays := overlays u\<rparr>"
  have "u = (s\<lparr>overlays := overlays t\<rparr>)\<lparr>overlays := overlays u\<rparr>" using a b by simp
  then show "u = s\<lparr>overlays := overlays u\<rparr>" by simp
qed

lemma sbo_get: "same_but_overlays s (fst (get_overlay_for_screen s i))"
  unfolding get_overlay_for_screen_def by (simp add: sbo_refl sbo_upd split: option.split)

lemma sbo_close: "same_but_overlays s (close_overlay_for_screen s i)"
  unfolding close_overlay_for_screen_def by (rule sbo_upd)

lemma sbo_apply: "same_but_overlays s (apply_dimming_to_screen s i p c)"
proof -
  obtain t r where g: "get_overlay_for_screen s i = (t, r)"
    by (cases "get_overlay_for_screen s i")
  with sbo_get [of s i] have st: "same_but_overlays s t" by simp
  show ?thesis unfolding apply_dimming_to_screen_def g
    by (cases r) (auto intro: sbo_trans [OF st] sbo_upd simp: st)
qed

lemma sbo_blue: "same_but_overlays s (update_blue_light s)"
proof -
  obtain t r where g: "get_overlay_for_screen s 0 = (t, r)"
    by (cases "get_overlay_for_screen s 0")
  with sbo_get [of s 0] have st: "same_but_overlays s t" by simp
  show ?thesis unfolding update_blue_light_def g Let_def
    by (cases r) (auto intro: sbo_trans [OF st] sbo_upd sbo_close sbo_apply simp: st)
qed

lemma state_dict_frame:
  "state_dict (s\<lparr>overlays := m\<rparr>) = state_dict s"
  "state_dict (s\<lparr>toggle_in_progress := b\<rparr>) = state_dict s"
  "state_dict (s\<lparr>state_file := f\<rparr>) = state_dict s"
  unfolding state_dict_def by (simp_all split: intensity_attribute.split)

lemma state_dict_save: "state_dict (save_state s) = state_dict s"
  unfolding save_state_def by (simp add: state_dict_frame)

lemma raises_frame:
  "second_display_tint_raises (s\<lparr>overlays := m\<rparr>) = second_display_tint_raises s"
  "second_display_tint_raises (s\<lparr>toggle_in_progress := b\<rparr>) = second_display_tint_raises s"
  "second_display_tint_raises (s\<lparr>dimmer_active := b\<rparr>) = second_display_tint_raises s"
  "second_display_tint_raises (s\<lparr>current_dim := v\<rparr>) = second_display_tint_raises s"
  "second_display_tint_raises (s\<lparr>dim_slider := v\<rparr>) = second_display_tint_raises s"
  "second_display_tint_raises (s\<lparr>state_file := f\<rparr>) = second_display_tint_raises s"
  unfolding second_display_tint_raises_def by simp_all

lemma raises_save: "second_display_tint_raises (save_state s) = second_display_tint_raises s"
  unfolding save_state_def by (simp add: raises_frame)

lemma sbo_fields:
  assumes "same_but_overlays s t"
  shows "dimmer_active t = dimmer_active s" "current_dim t = current_dim s"
    "state_file t = state_file s" "toggle_in_progress t = toggle_in_progress s"
    "state_writable t = state_writable s" "dim_slider t = dim_slider s"
    "schedule_dim_value t = schedule_dim_value s"
    "state_dict t = state_dict s"
    "second_display_tint_raises t = second_display_tint_raises s"
    "second_display_enabled t = second_display_enabled s"
    "second_display_blue_light t = second_display_blue_light s"
    "second_display_blue_intensity t = second_display_blue_intensity s"
    "screen_count t = screen_count s"
proof -
  from assms have e: "t = s\<lparr>overlays := overlays t\<rparr>" unfolding same_but_overlays_def .
  show "dimmer_active t = dimmer_active s" by (subst e) simp
  show "current_dim t = current_dim s" by (subst e) simp
  show "state_file t = state_file s" by (subst e) simp
  show "toggle_in_progress t = toggle_in_progress s" by (subst e) simp
  show "state_writable t = state_writable s" by (subst e) simp
  show "dim_slider t = dim_slider s" by (subst e) simp
  show "schedule_dim_value t = schedule_dim_value s" by (subst e) simp
  show "state_dict t = state_dict s" by (subst e) (rule state_dict_frame(1))
  show "second_display_tint_raises t = second_display_tint_raises s"
    by (subst e) (rule raises_frame(1))
  show "second_display_enabled t = second_display_enabled s" by (subst e) simp
  show "second_display_blue_light t = second_display_blue_light s" by (subst e) simp
  show "second_display_blue_intensity t = second_display_blue_intensity s" by (subst e) simp
  show "screen_count t = screen_count s" by (subst e) simp
qed

text \<open>The second display: when the update returns, and when it raises.\<close>

lemma second_display_returns:
  assumes "update_second_display s = Inr t"
  shows "same_but_overlays s t"
proof -
  obtain u r where g: "get_overlay_for_screen s 1 = (u, r)"
    by (cases "get_overlay_for_screen s 1")
  with sbo_get [of s 1] have su: "same_but_overlays s u" by simp
  show ?thesis using assms unfolding update_second_display_def g Let_def
    by (cases r)
       (auto intro: sbo_trans [OF su] sbo_upd sbo_refl simp: su
             split: if_splits intensity_attribute.splits)
qed

lemma second_display_ok:
  assumes "\<not> (second_display_blue_light s \<and> second_display_blue_intensity s = SliderWidget)"
  shows "\<exists>t. update_second_display s = Inr t"
proof -
  obtain u r where g: "get_overlay_for_screen s 1 = (u, r)"
    by (cases "get_overlay_for_screen s 1")
  with sbo_get [of s 1] have su: "same_but_overlays s u" by simp
  show ?thesis using assms
    unfolding update_second_display_def g Let_def
    by (cases r) (auto simp: sbo_fields(11,12) [OF su] split: intensity_attribute.splits)
qed

lemma second_display_raises:
  assumes "second_display_tint_raises s"
  shows "update_second_display s = Inl TypeError"
proof -
  from assms have a: "second_display_enabled s" "1 < screen_count s"
    "second_display_blue_light s" "second_display_blue_intensity s = SliderWidget"
    unfolding second_display_tint_raises_def by simp_all
  show ?thesis using a unfolding update_second_display_def get_overlay_for_screen_def
    by (simp split: option.split)
qed

lemma enable_screen_returns: "enable_screen i s = Inr t \<Longrightarrow> same_but_overlays s t"
  unfolding enable_screen_def
  by (auto simp: sbo_blue sbo_apply sbo_refl second_display_returns split: if_splits)

lemma disable_screen_returns: "disable_screen i s = Inr t \<Longrightarrow> same_but_overlays s t"
  unfolding disable_screen_def Let_def
  by (auto simp: sbo_close sbo_apply sbo_refl split: if_splits intensity_attribute.splits)

lemma for_each_screen_returns:
  assumes "\<And>i u v. body i u = Inr v \<Longrightarrow> same_but_overlays u v"
  shows "for_each_screen body xs s = Inr t \<Longrightarrow> same_but_overlays s t"
proof (induction xs arbitrary: s)
  case Nil
  then show ?case by (simp add: sbo_refl)
next
  case (Cons x xs)
  from Cons.prems obtain u where u: "body x s = Inr u" "for_each_screen body xs u = Inr t"
    by (auto split: sum.splits)
  from assms [OF u(1)] Cons.IH [OF u(2)] show ?case by (rule sbo_trans)
qed

lemma enable_all_ok:
  assumes "\<not> second_display_tint_raises s"
  shows "\<exists>t. for_each_screen enable_screen (get_enabled_screens s) s = Inr t"
proof -
  have "\<exists>u. enable_screen 0 s = Inr u" unfolding enable_screen_def by simp
  then obtain u where u: "enable_screen 0 s = Inr u" ..
  from enable_screen_returns [OF u] have su: "same_but_overlays s u" .
  have "\<exists>t. enable_screen 1 u = Inr t"
    if "second_display_enabled s" "1 < screen_count s"
  proof -
    from that assms
    have "\<not> (second_display_blue_light u \<and> second_display_blue_intensity u = SliderWidget)"
      unfolding second_display_tint_raises_def by (simp add: sbo_fields(11,12) [OF su])
    from second_display_ok [OF this] show ?thesis unfolding enable_screen_def by auto
  qed
  then show ?thesis unfolding get_enabled_screens_def using u by auto
qed

lemma disable_all_ok:
  assumes "\<not> second_display_tint_raises s"
  shows "\<exists>t. for_each_screen disable_screen (get_enabled_screens s) s = Inr t"
proof -
  have "\<exists>u. disable_screen 0 s = Inr u" unfolding disable_screen_def Let_def by simp
  then obtain u where u: "disable_screen 0 s = Inr u" ..
  from disable_screen_returns [OF u] have su: "same_but_overlays s u" .
  have "\<exists>t. disable_screen 1 u = Inr t"
    if "second_display_enabled s" "1 < screen_count s"
  proof -
    from that assms
    have "\<not> (second_display_blue_light u \<and> second_display_blue_intensity u = SliderWidget)"
      unfolding second_display_tint_raises_def by (simp add: sbo_fields(11,12) [OF su])
    then show ?thesis unfolding disable_screen_def Let_def
      by (auto split: intensity_attribute.splits)
  qed
  then show ?thesis unfolding get_enabled_screens_def using u by auto
qed

lemma enable_all_raises:
  assumes "second_display_tint_raises s"
  shows "for_each_screen enable_screen (get_enabled_screens s) s = Inl TypeError"
proof -
  have "\<exists>u. enable_screen 0 s = Inr u" unfolding enable_screen_def by simp
  then obtain u where u: "enable_screen 0 s = Inr u" ..
  from enable_screen_returns [OF u] have su: "same_but_overlays s u" .
  from assms have r: "second_display_tint_raises u" by (simp add: sbo_fields(9) [OF su])
  then have e: "second_display_enabled u" unfolding second_display_tint_raises_def by simp
  have "enable_screen 1 u = Inl TypeError"
    unfolding enable_screen_def using e second_display_raises [OF r] by simp
  moreover from assms have "get_enabled_screens s = [0, 1]"
    unfolding get_enabled_screens_def second_display_tint_raises_def by simp
  ultimately show ?thesis using u by simp
qed

text \<open>Switching the dimmer off: the flag is cleared and the state file is not touched.\<close>

lemma toggle_off:
  assumes "\<not> toggle_in_progress s" "dimmer_active s" "\<not> second_display_tint_raises s"
  shows "\<exists>t. toggle_dimmer s = Inr t \<and> \<not> dimmer_active t \<and> state_file t = state_file s \<and>
             current_dim t = current_dim s"
proof -
  let ?s1 = "s\<lparr>toggle_in_progress := True\<rparr>"
  have nr: "\<not> second_display_tint_raises ?s1"
    using assms(3) by (simp add: raises_frame)
  from disable_all_ok [OF nr] obtain u
    where u: "for_each_screen disable_screen (get_enabled_screens ?s1) ?s1 = Inr u" ..
  have sb: "same_but_overlays ?s1 u"
    using disable_screen_returns u by (rule for_each_screen_returns)
  have t: "toggle_dimmer s = Inr (u\<lparr>dimmer_active := False, toggle_in_progress := False\<rparr>)"
    using assms(1,2) u unfolding toggle_dimmer_def Let_def by simp
  show ?thesis unfolding t using sbo_fields(2,3) [OF sb] by simp
qed

text \<open>Switching the dimmer on: the flag is set and the new state is written.\<close>

lemma toggle_on:
  assumes "\<not> toggle_in_progress s" "\<not> dimmer_active s" "\<not> second_display_tint_raises s"
  shows "\<exists>t. toggle_dimmer s = Inr t \<and> dimmer_active t \<and> current_dim t = current_dim s \<and>
             \<not> toggle_in_progress t \<and> \<not> second_display_tint_raises t \<and>
             (state_writable s \<longrightarrow> state_file t = Some (state_dict t))"
proof -
  let ?s1 = "s\<lparr>toggle_in_progress := True\<rparr>"
  have nr: "\<not> second_display_tint_raises ?s1"
    using assms(3) by (simp add: raises_frame)
  from enable_all_ok [OF nr] obtain u
    where u: "for_each_screen enable_screen (get_enabled_screens ?s1) ?s1 = Inr u" ..
  have sb: "same_but_overlays ?s1 u"
    using enable_screen_returns u by (rule for_each_screen_returns)
  let ?t = "(save_state (u\<lparr>dimmer_active := True\<rparr>))\<lparr>toggle_in_progress := False\<rparr>"
  have t: "toggle_dimmer s = Inr ?t"
    using assms(1,2) u unfolding toggle_dimmer_def Let_def by simp
  have a: "dimmer_active ?t" "\<not> toggle_in_progress ?t" unfolding save_state_def by simp_all
  have c: "current_dim ?t = current_dim s"
    unfolding save_state_def using sbo_fields(2) [OF sb] by simp
  have r: "\<not> second_display_tint_raises ?t"
    using sbo_fields(9) [OF sb] nr by (simp add: raises_frame raises_save)
  have f: "state_file ?t = Some (state_dict ?t)" if "state_writable s"
  proof -
    have w: "state_writable u" using sbo_fields(5) [OF sb] that by simp
    have "state_dict ?t = state_dict (u\<lparr>dimmer_active := True\<rparr>)"
      by (simp add: state_dict_frame state_dict_save)
    moreover have "state_file ?t = Some (state_dict (u\<lparr>dimmer_active := True\<rparr>))"
      unfolding save_state_def using w by simp
    ultimately show ?thesis by simp
  qed
  show ?thesis unfolding t using a c r f by simp
qed

text \<open>With the second display's attribute still the widget, switching on raises.\<close>

lemma toggle_on_raises:
  assumes "\<not> toggle_in_progress s" "\<not> dimmer_active s" "second_display_tint_raises s"
  shows "toggle_dimmer s = Inl TypeError"
proof -
  let ?s1 = "s\<lparr>toggle_in_progress := True\<rparr>"
  have r: "second_display_tint_raises ?s1"
    using assms(3) by (simp add: raises_frame)
  show ?thesis using assms(1,2) enable_all_raises [OF r]
    unfolding toggle_dimmer_def Let_def by simp
qed

lemma on_dim_changed_fields:
  "current_dim (on_dim_changed s v) = v"
  "dimmer_active (on_dim_changed s v) = dimmer_active s"
  "toggle_in_progress (on_dim_changed s v) = toggle_in_progress s"
  "second_display_tint_raises (on_dim_changed s v) = second_display_tint_raises s"
  "state_writable s \<Longrightarrow>
     state_file (on_dim_changed s v) = Some (state_dict (on_dim_changed s v))"
proof -
  let ?s1 = "save_state (s\<lparr>current_dim := v\<rparr>)"
  have sb: "same_but_overlays ?s1 (on_dim_changed s v)"
    unfolding on_dim_changed_def Let_def by (simp add: sbo_blue sbo_apply sbo_refl)
  show "current_dim (on_dim_changed s v) = v"
    using sbo_fields(2) [OF sb] by (simp add: save_state_def)
  show "dimmer_active (on_dim_changed s v) = dimmer_active s"
    using sbo_fields(1) [OF sb] by (simp add: save_state_def)
  show "toggle_in_progress (on_dim_changed s v) = toggle_in_progress s"
    using sbo_fields(4) [OF sb] by (simp add: save_state_def)
  show "second_display_tint_raises (on_dim_changed s v) = second_display_tint_raises s"
    using sbo_fields(9) [OF sb] by (simp add: raises_save raises_frame)
  show "state_file (on_dim_changed s v) = Some (state_dict (on_dim_changed s v))"
    if "state_writable s"
  proof -
    have "state_dict (on_dim_changed s v) = state_dict (s\<lparr>current_dim := v\<rparr>)"
      using sbo_fields(8) [OF sb] by (simp add: state_dict_save)
    moreover have "state_file (on_dim_changed s v) = Some (state_dict (s\<lparr>current_dim := v\<rparr>))"
      using sbo_fields(3) [OF sb] that by (simp add: save_state_def)
    ultimately show ?thesis by simp
  qed
qed

lemma setValue_fields:
  "current_dim (dim_slider_setValue s v)
     = (if max 0 (min 95 v) = dim_slider s then current_dim s else max 0 (min 95 v))"
  "dimmer_active (dim_slider_setValue s v) = dimmer_active s"
  "toggle_in_progress (dim_slider_setValue s v) = toggle_in_progress s"
  "second_display_tint_raises (dim_slider_setValue s v) = second_display_tint_raises s"
  unfolding dim_slider_setValue_def Let_def
  by (simp_all add: on_dim_changed_fields raises_frame)

lemma persisted_of_dict: "state_file s = Some (state_dict s) \<Longrightarrow> dim_state_persisted s"
  unfolding dim_state_persisted_def persisted_value_def state_dict_def by simp

text \<open>
  The two operations that do write: after the dimmer is switched on and after a change of
  the dim slider the state file agrees with the dimmer state in memory.
\<close>

lemma toggle_on_persists:
  assumes "\<not> toggle_in_progress s" "\<not> dimmer_active s" "\<not> second_display_tint_raises s"
    "state_writable s"
  shows "\<exists>t. toggle_dimmer s = Inr t \<and> dim_state_persisted t"
  using toggle_on [OF assms(1,2,3)] assms(4) by (auto intro: persisted_of_dict)

lemma on_dim_changed_persists:
  assumes "state_writable s"
  shows "dim_state_persisted (on_dim_changed s v)"
  using on_dim_changed_fields(5) [OF assms] by (rule persisted_of_dict)

lemma initial_control:
  "\<not> toggle_in_progress (DimmerControl n f w)" "\<not> dimmer_active (DimmerControl n f w)"
  "state_writable (DimmerControl n f w) = w" "current_dim (DimmerControl n f w) = 25"
  "\<not> second_display_tint_raises (DimmerControl n f w)"
  unfolding DimmerControl_def second_display_tint_raises_def by simp_all


text \<open>
  Claim C6. The claim is that every operation changing the dimmer flag or the percentage
  writes the state file, so that both directions of the toggle leave the file equal to the
  state in memory. Evaluated from the initial controller with a writable state file:
  switching the dimmer on writes the file and the two agree; switching it off again clears
  the flag in memory, writes nothing, and the file still says that the dimmer is active.
\<close>

theorem toggle_off_not_persisted:
  "\<exists>s1 s2. toggle_dimmer (DimmerControl 1 None True) = Inr s1 \<and>
     toggle_dimmer s1 = Inr s2 \<and>
     dimmer_active s1 \<and>
     dim_state_persisted s1 \<and>
     \<not> dimmer_active s2 \<and>
     persisted_value s2 ''dimmer_active'' = Some (JBool True) \<and>
     \<not> dim_state_persisted s2"
proof -
  let ?s0 = "DimmerControl 1 None True"
  note i = initial_control [of 1 None True]
  have w: "state_writable ?s0" using i(3) by simp
  from toggle_on [OF i(1,2,5)] w obtain s1
    where s1: "toggle_dimmer ?s0 = Inr s1" "dimmer_active s1" "\<not> toggle_in_progress s1"
      "\<not> second_display_tint_raises s1" "state_file s1 = Some (state_dict s1)"
    by auto
  have p1: "dim_state_persisted s1" using s1(5) by (rule persisted_of_dict)
  from toggle_off [OF s1(3,2,4)] obtain s2
    where s2: "toggle_dimmer s1 = Inr s2" "\<not> dimmer_active s2" "state_file s2 = state_file s1"
    by auto
  have v1: "persisted_value s1 ''dimmer_active'' = Some (JBool True)"
    using p1 s1(2) unfolding dim_state_persisted_def by simp
  have v2: "persisted_value s2 ''dimmer_active'' = Some (JBool True)"
    using v1 s2(3) unfolding persisted_value_def by simp
  have np: "\<not> dim_state_persisted s2"
    using v2 s2(2) unfolding dim_state_persisted_def by simp
  from s1(1,2) p1 s2(1,2) v2 np show ?thesis by blast
qed

lemma scenario_window: "in_schedule (QTime 19 0) (QTime 18 0) (QTime 6 0)"
  unfolding in_schedule_def qtime_le_def msecs_since_start_of_day_def QTime_def by simp

text \<open>
  Claim C4, as stated, at the scenario with the dimmer already on at 25 percent: the
  schedule is enabled, its window is set and contains 19:00, and the tick returns the
  state unchanged, so the percentage stays 25 and is not the schedule level 90.
\<close>

theorem check_schedule_keeps_percent_when_on:
  "schedule_enabled scenario_on \<and> schedule_time_set scenario_on \<and>
   start_time scenario_on = Some (QTime 18 0) \<and> end_time scenario_on = Some (QTime 6 0) \<and>
   in_schedule (QTime 19 0) (QTime 18 0) (QTime 6 0) \<and>
   \<not> toggle_in_progress scenario_on \<and>
   dimmer_active scenario_on \<and> current_dim scenario_on = 25 \<and>
   schedule_dim_value scenario_on = 90 \<and>
   check_schedule (QTime 19 0) scenario_on = Inr scenario_on \<and>
   current_dim scenario_on \<noteq> schedule_dim_value scenario_on"
proof -
  note i = initial_control [of 1 None True]
  from toggle_on [OF i(1,2,5)] i(4) obtain t
    where t: "toggle_dimmer (DimmerControl 1 None True) = Inr t" "dimmer_active t"
      "current_dim t = 25" "\<not> toggle_in_progress t"
    by auto
  have e: "scenario_on = all_night_schedule t" unfolding scenario_on_def t(1) by simp
  have f: "schedule_enabled scenario_on" "schedule_time_set scenario_on"
    "start_time scenario_on = Some (QTime 18 0)" "end_time scenario_on = Some (QTime 6 0)"
    "schedule_dim_value scenario_on = 90"
    unfolding e all_night_schedule_def by simp_all
  have g: "dimmer_active scenario_on" "current_dim scenario_on = 25"
    "\<not> toggle_in_progress scenario_on"
    unfolding e all_night_schedule_def using t by simp_all
  have c: "check_schedule (QTime 19 0) scenario_on = Inr scenario_on"
    unfolding check_schedule_def using f g scenario_window by simp
  from f g c scenario_window show ?thesis by simp
qed

text \<open>
  The tick when the dimmer is off and the second display's attribute is still the widget:
  the exception of \<^verbatim>\<open>_toggle_dimmer\<close> leaves \<^verbatim>\<open>_check_schedule\<close>, here in general and on
  the two-screen scenario.
\<close>

lemma check_schedule_raises:
  assumes "schedule_enabled s" "schedule_time_set s"
    "start_time s = Some st" "end_time s = Some et"
    "in_schedule now st et" "\<not> toggle_in_progress s"
    "\<not> dimmer_active s" "second_display_tint_raises s"
  shows "check_schedule now s = Inl TypeError"
proof -
  let ?s1 = "dim_slider_setValue s (schedule_dim_value s)"
  have p: "\<not> toggle_in_progress ?s1" "\<not> dimmer_active ?s1" "second_display_tint_raises ?s1"
    using assms(6,7,8) by (simp_all add: setValue_fields)
  show ?thesis using assms(1-5,7) toggle_on_raises [OF p] unfolding check_schedule_def by simp
qed

lemma check_schedule_raises_two_screens:
  "check_schedule (QTime 19 0) scenario_two_screens = Inl TypeError"
proof -
  have h: "schedule_enabled scenario_two_screens" "schedule_time_set scenario_two_screens"
    "start_time scenario_two_screens = Some (QTime 18 0)"
    "end_time scenario_two_screens = Some (QTime 6 0)"
    "in_schedule (QTime 19 0) (QTime 18 0) (QTime 6 0)"
    "\<not> toggle_in_progress scenario_two_screens"
    "\<not> dimmer_active scenario_two_screens"
    "second_display_tint_raises scenario_two_screens"
    unfolding scenario_two_screens_def all_night_schedule_def DimmerControl_def
      second_display_tint_raises_def
    by (simp_all add: scenario_window)
  show ?thesis using h by (rule check_schedule_raises)
qed

text \<open>
  Claim C4, amended. For every schedule tick taken while the schedule is enabled, a window
  is set, the current time is inside it, no toggle is in progress, and the dimmer is
  already on or the second display is not in the state in which switching raises (enabled
  on at least two screens, blue light on, intensity attribute still the slider widget):
  the tick succeeds and the dimmer is on afterwards. If the dimmer was already on, the tick
  changes nothing, in particular not the percentage. If it was off, the dim slider showed
  the current percentage and the schedule level is within the slider's range 0 to 95, the
  current percentage afterwards is the schedule level.
\<close>

theorem check_schedule_in_window:
  assumes "schedule_enabled s" "schedule_time_set s"
    "start_time s = Some st" "end_time s = Some et"
    "in_schedule now st et" "\<not> toggle_in_progress s"
    "dimmer_active s \<or> \<not> second_display_tint_raises s"
  shows "\<exists>s'. check_schedule now s = Inr s' \<and> dimmer_active s' \<and>
     (dimmer_active s \<longrightarrow> s' = s) \<and>
     (\<not> dimmer_active s \<and> dim_slider s = current_dim s \<and>
      0 \<le> schedule_dim_value s \<and> schedule_dim_value s \<le> 95
        \<longrightarrow> current_dim s' = schedule_dim_value s)"
proof (cases "dimmer_active s")
  case True
  then show ?thesis using assms(1-5) unfolding check_schedule_def by simp
next
  case False
  let ?s1 = "dim_slider_setValue s (schedule_dim_value s)"
  have c: "check_schedule now s = toggle_dimmer ?s1"
    using assms(1-5) False unfolding check_schedule_def by simp
  have p: "\<not> toggle_in_progress ?s1" "\<not> dimmer_active ?s1"
    "\<not> second_display_tint_raises ?s1"
    using assms(6,7) False by (simp_all add: setValue_fields)
  from toggle_on [OF p] obtain t
    where t: "toggle_dimmer ?s1 = Inr t" "dimmer_active t" "current_dim t = current_dim ?s1"
    by auto
  show ?thesis unfolding c using False t by (auto simp add: setValue_fields(1))
qed

theorem check_schedule_in_window_witness:
  "schedule_enabled scenario_off \<and> schedule_time_set scenario_off \<and>
   start_time scenario_off = Some (QTime 18 0) \<and> end_time scenario_off = Some (QTime 6 0) \<and>
   in_schedule (QTime 19 0) (QTime 18 0) (QTime 6 0) \<and>
   \<not> toggle_in_progress scenario_off \<and> \<not> dimmer_active scenario_off \<and>
   \<not> second_display_tint_raises scenario_off \<and>
   current_dim scenario_off = 25 \<and>
   (\<exists>s'. check_schedule (QTime 19 0) scenario_off = Inr s' \<and> dimmer_active s' \<and>
         current_dim s' = 90)"
proof -
  have h: "schedule_enabled scenario_off" "schedule_time_set scenario_off"
    "start_time scenario_off = Some (QTime 18 0)" "end_time scenario_off = Some (QTime 6 0)"
    "in_schedule (QTime 19 0) (QTime 18 0) (QTime 6 0)"
    "\<not> toggle_in_progress scenario_off"
    "dimmer_active scenario_off \<or> \<not> second_display_tint_raises scenario_off"
    unfolding scenario_off_def all_night_schedule_def DimmerControl_def
      second_display_tint_raises_def
    by (simp_all add: scenario_window)
  have o: "\<not> dimmer_active scenario_off" "current_dim scenario_off = 25"
    "dim_slider scenario_off = 25" "schedule_dim_value scenario_off = 90"
    unfolding scenario_off_def all_night_schedule_def DimmerControl_def by simp_all
  show ?thesis using check_schedule_in_window [OF h] h o by auto
qed

end
